theory Spec2Isabelle
  imports Main "HOL-Library.Sublist"
begin

section \<open>The quad9 DoH provider client (provider/quad9/quad9.go)\<close>

subsection \<open>Data model\<close>

text \<open>
  Go's \<^verbatim>\<open>error\<close> values that \<^verbatim>\<open>ECSQuery\<close> and \<^verbatim>\<open>SetProvides\<close> can return.
  The two errors the package builds itself are \<^verbatim>\<open>fmt.Errorf(format, arg)\<close>; they are
  kept as the format string and the integer argument. The others are handed through
  unchanged from a collaborator; the constructor records which package produced the
  value (its dynamic type in Go), the payload \<open>'x\<close> is the collaborator's own value.
\<close>

datatype 'x error =
    Errorf string "int list"
  | IdnaError 'x
  | XipError 'x
  | XhttpError 'x
  | JsonError 'x

text \<open>\<^verbatim>\<open>type Provider struct { provides int; xhttp *xhttp.Request }\<close>: the transport is
  held by reference, \<open>'h\<close> is the type of that reference. A Go \<^verbatim>\<open>int\<close> is an \<open>int\<close> here:
  the program compares these integers and uses them as map keys, it does no arithmetic
  on them.\<close>

record 'h Provider =
  provides :: int
  xhttp :: 'h

definition DefaultProvides :: int where "DefaultProvides = 0"
definition SecuredProvides :: int where "SecuredProvides = 1"
definition UnsecuredProvides :: int where "UnsecuredProvides = 2"

text \<open>\<^verbatim>\<open>var Upstream = map[int]string{...}\<close>\<close>

definition Upstream :: "int \<rightharpoonup> string" where
  "Upstream = [DefaultProvides \<mapsto> ''https://9.9.9.9/dns-query'',
               SecuredProvides \<mapsto> ''https://dns9.quad9.net/dns-query'',
               UnsecuredProvides \<mapsto> ''https://dns10.quad9.net/dns-query'']"

text \<open>\<^verbatim>\<open>Upstream[p]\<close> read as a value: Go gives the zero value, the empty string, for a
  key that is not in the map.\<close>

definition Upstream_at :: "int \<Rightarrow> string" where
  "Upstream_at p = (case Upstream p of None \<Rightarrow> [] | Some u \<Rightarrow> u)"

text \<open>\<^verbatim>\<open>func New() *Provider\<close>, given the reference \<^verbatim>\<open>xhttp.New()\<close> returned.\<close>

definition New :: "'h \<Rightarrow> 'h Provider" where
  "New h = \<lparr>provides = DefaultProvides, xhttp = h\<rparr>"

text \<open>\<^verbatim>\<open>func (c *Provider) String() string\<close>\<close>

definition String :: "'h Provider \<Rightarrow> string" where
  "String c = ''quad9''"

subsection \<open>SetProvides\<close>

text \<open>
  \<^verbatim>\<open>func (c *Provider) SetProvides(p int) error\<close>. The receiver is a pointer, so the
  model returns the error (\<open>None\<close> for \<^verbatim>\<open>nil\<close>) together with the client as the call
  leaves it.
\<close>

definition SetProvides :: "'h Provider \<Rightarrow> int \<Rightarrow> 'x error option \<times> 'h Provider" where
  "SetProvides c p =
     (case Upstream p of
        None \<Rightarrow> (Some (Errorf ''doh: quad9: not supported provides: %d'' [p]), c)
      | Some _ \<Rightarrow> (None, c\<lparr>provides := p\<rparr>))"

subsection \<open>strings.TrimSpace\<close>

text \<open>
  A Go string is a sequence of bytes, here a \<open>string\<close> of 8-bit characters.
  \<^verbatim>\<open>strings.TrimSpace\<close> removes the leading and the trailing white space "as defined by
  Unicode": it decodes UTF-8 from the left and from the right and drops each code point
  for which \<^verbatim>\<open>unicode.IsSpace\<close> holds. \<open>White_Space\<close> lists the UTF-8 encodings of those
  code points: U+0009..U+000D, U+0020, U+0085, U+00A0, U+1680, U+2000..U+200A, U+2028,
  U+2029, U+202F, U+205F, U+3000. A byte sequence that is not one of these encodings
  (also an ill-formed one, which Go decodes as U+FFFD of width 1) stops the trimming.
\<close>

definition asciiSpace :: "char list" where
  "asciiSpace = [CHR 0x09, CHR 0x0A, CHR 0x0B, CHR 0x0C, CHR 0x0D, CHR 0x20]"

definition White_Space :: "string list" where
  "White_Space =
     map (\<lambda>b. [b]) asciiSpace @
     [[CHR 0xC2, CHR 0x85], [CHR 0xC2, CHR 0xA0], [CHR 0xE1, CHR 0x9A, CHR 0x80]] @
     map (\<lambda>b. [CHR 0xE2, CHR 0x80, b])
       [CHR 0x80, CHR 0x81, CHR 0x82, CHR 0x83, CHR 0x84, CHR 0x85, CHR 0x86, CHR 0x87,
        CHR 0x88, CHR 0x89, CHR 0x8A, CHR 0xA8, CHR 0xA9, CHR 0xAF] @
     [[CHR 0xE2, CHR 0x81, CHR 0x9F], [CHR 0xE3, CHR 0x80, CHR 0x80]]"

text \<open>The width in bytes of the white-space code point a string starts with (ends
  with), 0 when it starts (ends) with none.\<close>

definition leading_space :: "string \<Rightarrow> nat" where
  "leading_space s =
     (case List.find (\<lambda>w. prefix w s) White_Space of None \<Rightarrow> 0 | Some w \<Rightarrow> length w)"

definition trailing_space :: "string \<Rightarrow> nat" where
  "trailing_space s =
     (case List.find (\<lambda>w. suffix w s) White_Space of None \<Rightarrow> 0 | Some w \<Rightarrow> length w)"

lemma leading_space_le: "leading_space s \<le> length s"
  by (auto simp: leading_space_def prefix_length_le split: option.splits
           dest!: find_Some_iff [THEN iffD1])

lemma trailing_space_le: "trailing_space s \<le> length s"
  by (auto simp: trailing_space_def suffix_length_le split: option.splits
           dest!: find_Some_iff [THEN iffD1])

lemma leading_space_less:
  "0 < leading_space s \<Longrightarrow> length s - leading_space s < length s"
  using leading_space_le [of s] by arith

lemma trailing_space_less:
  "0 < trailing_space s \<Longrightarrow> length s - trailing_space s < length s"
  using trailing_space_le [of s] by arith

function TrimLeftSpace :: "string \<Rightarrow> string" where
  "TrimLeftSpace s =
     (if 0 < leading_space s then TrimLeftSpace (drop (leading_space s) s) else s)"
  by pat_completeness auto
termination
  by (relation "measure length") (simp_all add: leading_space_less)

function TrimRightSpace :: "string \<Rightarrow> string" where
  "TrimRightSpace s =
     (if 0 < trailing_space s then TrimRightSpace (take (length s - trailing_space s) s)
      else s)"
  by pat_completeness auto
termination
  by (relation "measure length") (simp_all add: trailing_space_less)

definition TrimSpace :: "string \<Rightarrow> string" where
  "TrimSpace s = TrimRightSpace (TrimLeftSpace s)"

subsection \<open>The collaborators\<close>

text \<open>
  Modelled from the spec: \<^verbatim>\<open>dns.Response\<close> (package \<^verbatim>\<open>doh-go/dns\<close>) is declared outside
  the file. The spec gives it a provider tag, a numeric status code (0 is success) and
  the answer records, whose shape the wire format owns; \<open>'a\<close> is the type of one record.
\<close>

record 'a Response =
  Provider :: string
  Status :: int
  Answer :: "'a list"

text \<open>The arguments of one \<^verbatim>\<open>xhttp.Request.Get(url, param, ctx, header)\<close>;
  \<^verbatim>\<open>xhttp.QueryParam\<close> and \<^verbatim>\<open>xhttp.Header\<close> are Go maps keyed by strings.\<close>

record 'c get_call =
  get_url :: string
  get_param :: "string \<rightharpoonup> string"
  get_ctx :: 'c
  get_header :: "string \<rightharpoonup> string"

text \<open>What a call does to the outside: a GET through the transport \<open>'h\<close>, reading
  the body of a response \<open>'r\<close>, closing a response.\<close>

datatype ('h, 'c, 'r) event = Get 'h "'c get_call" | Bytes 'r | Close 'r

text \<open>
  The packages \<^verbatim>\<open>ECSQuery\<close> calls are not part of the program: \<^verbatim>\<open>idna.ToASCII\<close>,
  \<^verbatim>\<open>xip.FixSubnet\<close>, \<^verbatim>\<open>xhttp\<close> (\<^verbatim>\<open>Get\<close> on the request, \<^verbatim>\<open>Bytes\<close> and \<^verbatim>\<open>Close\<close> on the
  response) and \<^verbatim>\<open>json.Decoder.Decode\<close>. They are parameters of the model. Each returns
  \<open>Inl\<close> of its error or \<open>Inr\<close> of its value. The network and the transport object behind
  the reference are a state \<open>'w\<close> that \<^verbatim>\<open>Get\<close>, \<^verbatim>\<open>Bytes\<close> and \<^verbatim>\<open>Close\<close> may read and change.
  \<^verbatim>\<open>Decode(rr)\<close> writes into the response it is given, so the decoder takes that response
  and returns it as decoding leaves it.
\<close>

record ('h, 'c, 'r, 'a, 'x, 'w) env =
  idna_ToASCII :: "string \<Rightarrow> 'x + string"
  xip_FixSubnet :: "string \<Rightarrow> 'x + string"
  xhttp_Get :: "'h \<Rightarrow> 'c get_call \<Rightarrow> 'w \<Rightarrow> ('x + 'r) \<times> 'w"
  rsp_Bytes :: "'r \<Rightarrow> 'w \<Rightarrow> ('x + string) \<times> 'w"
  rsp_Close :: "'r \<Rightarrow> 'w \<Rightarrow> 'w"
  json_Decode :: "string \<Rightarrow> 'a Response \<Rightarrow> 'x + 'a Response"

subsection \<open>Query and ECSQuery\<close>

text \<open>
  What a call returns and leaves behind: the two results of the Go function
  (\<open>None\<close> for \<^verbatim>\<open>nil\<close>), the client after the call (the receiver is a pointer), the
  collaborator calls with an effect in the order they were made, and the outside state.
\<close>

record ('h, 'c, 'r, 'a, 'x, 'w) outcome =
  response :: "'a Response option"
  failure :: "'x error option"
  client :: "'h Provider"
  trace :: "('h, 'c, 'r) event list"
  world :: 'w

text \<open>
  Lines 104 to 122 of \<^verbatim>\<open>ECSQuery\<close>: the name, the parameter map and the optional
  subnet. The inner \<^verbatim>\<open>ss, err := xip.FixSubnet(ss)\<close> declares a new \<^verbatim>\<open>ss\<close>, the one stored
  in the map.
\<close>

definition query_param ::
  "('h, 'c, 'r, 'a, 'x, 'w) env \<Rightarrow> string \<Rightarrow> string \<Rightarrow> string \<Rightarrow>
     'x error + (string \<rightharpoonup> string)" where
  "query_param env d t s =
     (case idna_ToASCII env (TrimSpace d) of
        Inl e \<Rightarrow> Inl (IdnaError e)
      | Inr name \<Rightarrow>
          let param = [''name'' \<mapsto> name, ''type'' \<mapsto> TrimSpace t];
              ss = TrimSpace s
          in if ss \<noteq> [] then
               (case xip_FixSubnet env ss of
                  Inl e \<Rightarrow> Inl (XipError e)
                | Inr ss' \<Rightarrow> Inr (param(''edns_client_subnet'' \<mapsto> ss')))
             else Inr param)"

text \<open>The arguments of the \<^verbatim>\<open>Get\<close> at line 124:
  \<^verbatim>\<open>c.xhttp.Get(Upstream[c.provides], param, ctx, xhttp.Header{"accept": "application/dns-json"})\<close>\<close>

definition get_args :: "'h Provider \<Rightarrow> 'c \<Rightarrow> (string \<rightharpoonup> string) \<Rightarrow> 'c get_call" where
  "get_args c ctx param =
     \<lparr>get_url = Upstream_at (provides c), get_param = param, get_ctx = ctx,
      get_header = [''accept'' \<mapsto> ''application/dns-json'']\<rparr>"

text \<open>
  \<^verbatim>\<open>func (c *Provider) ECSQuery(ctx, d, t, s) (*dns.Response, error)\<close>, lines 103 to 148.
  \<^verbatim>\<open>defer rsp.Close()\<close> runs when the function returns, on every path after a successful
  \<^verbatim>\<open>Get\<close>.
\<close>

definition ECSQuery ::
  "('h, 'c, 'r, 'a, 'x, 'w) env \<Rightarrow> 'h Provider \<Rightarrow> 'c \<Rightarrow> string \<Rightarrow> string \<Rightarrow> string \<Rightarrow> 'w \<Rightarrow>
     ('h, 'c, 'r, 'a, 'x, 'w) outcome" where
  "ECSQuery env c ctx d t s w =
     (case query_param env d t s of
        Inl e \<Rightarrow>
          \<lparr>response = None, failure = Some e, client = c, trace = [], world = w\<rparr>
      | Inr param \<Rightarrow>
          let call = get_args c ctx param in
          (case xhttp_Get env (xhttp c) call w of
             (Inl e, w1) \<Rightarrow>
               \<lparr>response = None, failure = Some (XhttpError e), client = c,
                trace = [Get (xhttp c) call], world = w1\<rparr>
           | (Inr rsp, w1) \<Rightarrow>
               (case rsp_Bytes env rsp w1 of
                  (Inl e, w2) \<Rightarrow>
                    \<lparr>response = None, failure = Some (XhttpError e), client = c,
                     trace = [Get (xhttp c) call, Bytes rsp, Close rsp],
                     world = rsp_Close env rsp w2\<rparr>
                | (Inr buf, w2) \<Rightarrow>
                    (case json_Decode env buf
                            \<lparr>Provider = String c, Status = 0, Answer = []\<rparr> of
                       Inl e \<Rightarrow>
                         \<lparr>response = None, failure = Some (JsonError e), client = c,
                          trace = [Get (xhttp c) call, Bytes rsp, Close rsp],
                          world = rsp_Close env rsp w2\<rparr>
                     | Inr rr \<Rightarrow>
                         if Status rr \<noteq> 0 then
                           \<lparr>response = Some rr,
                            failure = Some (Errorf ''doh: quad9: failed response code %d''
                                              [Status rr]),
                            client = c,
                            trace = [Get (xhttp c) call, Bytes rsp, Close rsp],
                            world = rsp_Close env rsp w2\<rparr>
                         else
                           \<lparr>response = Some rr, failure = None, client = c,
                            trace = [Get (xhttp c) call, Bytes rsp, Close rsp],
                            world = rsp_Close env rsp w2\<rparr>))))"

text \<open>\<^verbatim>\<open>func (c *Provider) Query(ctx, d, t)\<close>: \<^verbatim>\<open>return c.ECSQuery(ctx, d, t, "")\<close>\<close>

definition Query ::
  "('h, 'c, 'r, 'a, 'x, 'w) env \<Rightarrow> 'h Provider \<Rightarrow> 'c \<Rightarrow> string \<Rightarrow> string \<Rightarrow> 'w \<Rightarrow>
     ('h, 'c, 'r, 'a, 'x, 'w) outcome" where
  "Query env c ctx d t w = ECSQuery env c ctx d t [] w"

text \<open>The network requests of a call: the arguments of each \<^verbatim>\<open>Get\<close> in its trace.\<close>

fun requests_of :: "('h, 'c, 'r) event list \<Rightarrow> 'c get_call list" where
  "requests_of [] = []"
| "requests_of (Get h g # es) = g # requests_of es"
| "requests_of (Bytes rsp # es) = requests_of es"
| "requests_of (Close rsp # es) = requests_of es"

definition requests :: "('h, 'c, 'r, 'a, 'x, 'w) outcome \<Rightarrow> 'c get_call list" where
  "requests out = requests_of (trace out)"

text \<open>
  A caller's queries on one client, one after the other: each call is made on the client
  and in the outside state that the call before it left. The result is the list of the
  outcomes in the order of the calls.
\<close>

datatype 'c query = Q 'c string string | ECSQ 'c string string string

fun queries ::
  "('h, 'c, 'r, 'a, 'x, 'w) env \<Rightarrow> 'h Provider \<Rightarrow> 'c query list \<Rightarrow> 'w \<Rightarrow>
     ('h, 'c, 'r, 'a, 'x, 'w) outcome list" where
  "queries env c [] w = []"
| "queries env c (q # qs) w =
     (let out = (case q of
                   Q ctx d t \<Rightarrow> Query env c ctx d t w
                 | ECSQ ctx d t s \<Rightarrow> ECSQuery env c ctx d t s w)
      in out # queries env (client out) qs (world out))"

subsection \<open>A scripted test double for the collaborators\<close>

text \<open>
  The spec's testable properties run \<^verbatim>\<open>ECSQuery\<close> against a transport that returns
  scripted replies. \<open>stub\<close> is such a double: the outside state is the list of replies
  still to be served (\<open>Inl\<close> a transport error, \<open>Inr\<close> a body), a response is its body,
  and name conversion, subnet normalisation and decoding are tables over the few inputs
  the examples use. \<open>idn_example\<close> is the UTF-8 text of the spec's example domain
  (U+4F8B U+3048, then \<^verbatim>\<open>.jp\<close>).
\<close>

definition idn_example :: string where
  "idn_example = [CHR 0xE4, CHR 0xBE, CHR 0x8B, CHR 0xE3, CHR 0x81, CHR 0x88] @ ''.jp''"

definition stub_ToASCII :: "string \<Rightarrow> string + string" where
  "stub_ToASCII s =
     (if s = idn_example then Inr ''xn--r8jz45g.jp''
      else if s = ''xn---'' then Inl ''idna: invalid label''
      else Inr s)"

definition stub_FixSubnet :: "string \<Rightarrow> string + string" where
  "stub_FixSubnet s =
     (if s = ''1.2.3.4'' then Inr ''1.2.3.4/32''
      else if s = ''1.2.3.4/24'' then Inr ''1.2.3.0/24''
      else Inl ''xip: invalid subnet'')"

definition stub_Get ::
  "unit \<Rightarrow> unit get_call \<Rightarrow> (string + string) list \<Rightarrow> (string + string) \<times> (string + string) list"
  where
  "stub_Get h call w =
     (case w of [] \<Rightarrow> (Inl ''no reply scripted'', []) | reply # rest \<Rightarrow> (reply, rest))"

definition stub_Decode_status :: "string \<Rightarrow> unit Response \<Rightarrow> string + unit Response" where
  \<open>stub_Decode_status buf rr =
     (if buf = ''{"Status":0}'' then Inr (rr\<lparr>Status := 0\<rparr>)
      else if buf = ''{"Status":2}'' then Inr (rr\<lparr>Status := 2\<rparr>)
      else Inl ''json: cannot decode'')\<close>

definition stub_Decode :: "string \<Rightarrow> unit Response \<Rightarrow> string + unit Response" where
  \<open>stub_Decode buf rr =
     (if buf = ''{"Status":0,"provider":"other"}''
        then Inr (rr\<lparr>Status := 0, Provider := ''other''\<rparr>)
      else stub_Decode_status buf rr)\<close>

definition stub :: "(unit, unit, string, unit, string, (string + string) list) env" where
  "stub = \<lparr>idna_ToASCII = stub_ToASCII, xip_FixSubnet = stub_FixSubnet,
            xhttp_Get = stub_Get, rsp_Bytes = (\<lambda>rsp w. (Inr rsp, w)),
            rsp_Close = (\<lambda>rsp w. w), json_Decode = stub_Decode\<rparr>"

section \<open>Properties\<close>

subsection \<open>Facts about the model\<close>

lemma dom_Upstream: "dom Upstream = {0, 1, 2}"
  by (auto simp: Upstream_def DefaultProvides_def SecuredProvides_def UnsecuredProvides_def
           split: if_splits)

text \<open>A string made of white-space code points only is trimmed to the empty string.\<close>

lemma White_Space_length: "v \<in> set White_Space \<Longrightarrow> 0 < length v"
  by (auto simp: White_Space_def asciiSpace_def)

lemma leading_space_White_Space:
  "v \<in> set White_Space \<Longrightarrow> leading_space (v @ r) = length v"
  unfolding White_Space_def asciiSpace_def leading_space_def
  by (elim disjE | simp)+

lemma TrimLeftSpace_White_Space:
  "set vs \<subseteq> set White_Space \<Longrightarrow> TrimLeftSpace (concat vs @ r) = TrimLeftSpace r"
proof (induction vs)
  case Nil
  show ?case by simp
next
  case (Cons v vs)
  then have v: "v \<in> set White_Space" and vs: "set vs \<subseteq> set White_Space" by simp_all
  have "TrimLeftSpace (v @ (concat vs @ r)) =
          TrimLeftSpace (drop (length v) (v @ (concat vs @ r)))"
    using TrimLeftSpace.simps [of "v @ (concat vs @ r)"]
    by (simp only: leading_space_White_Space [OF v] White_Space_length [OF v] if_True)
  then show ?case using Cons.IH [OF vs] by simp
qed

lemma TrimSpace_Nil: "TrimSpace [] = []"
  by code_simp

lemma TrimSpace_White_Space:
  "set vs \<subseteq> set White_Space \<Longrightarrow> TrimSpace (concat vs) = []"
  using TrimLeftSpace_White_Space [of vs "[]"] TrimSpace_Nil
  by (simp only: TrimSpace_def append_Nil2)

text \<open>The parameter map, by cases on the two conversions.\<close>

lemma query_param_cases:
  "query_param env d t s =
     (case idna_ToASCII env (TrimSpace d) of
        Inl e \<Rightarrow> Inl (IdnaError e)
      | Inr name \<Rightarrow>
          if TrimSpace s = [] then Inr [''name'' \<mapsto> name, ''type'' \<mapsto> TrimSpace t]
          else (case xip_FixSubnet env (TrimSpace s) of
                  Inl e \<Rightarrow> Inl (XipError e)
                | Inr v \<Rightarrow> Inr [''name'' \<mapsto> name, ''type'' \<mapsto> TrimSpace t,
                                ''edns_client_subnet'' \<mapsto> v]))"
  by (simp add: query_param_def Let_def split: sum.splits)

text \<open>The call when a conversion fails, and when every step up to decoding succeeds.\<close>

lemma ECSQuery_rejected:
  "query_param env d t s = Inl e \<Longrightarrow>
     ECSQuery env c ctx d t s w =
       \<lparr>response = None, failure = Some e, client = c, trace = [], world = w\<rparr>"
  by (simp add: ECSQuery_def)

lemma ECSQuery_decoded:
  assumes "query_param env d t s = Inr param"
    and "xhttp_Get env (xhttp c) (get_args c ctx param) w = (Inr rsp, w1)"
    and "rsp_Bytes env rsp w1 = (Inr buf, w2)"
    and "json_Decode env buf \<lparr>Provider = ''quad9'', Status = 0, Answer = []\<rparr> = Inr rr"
  shows "ECSQuery env c ctx d t s w =
           \<lparr>response = Some rr,
            failure = (if Status rr \<noteq> 0
                       then Some (Errorf ''doh: quad9: failed response code %d'' [Status rr])
                       else None),
            client = c,
            trace = [Get (xhttp c) (get_args c ctx param), Bytes rsp, Close rsp],
            world = rsp_Close env rsp w2\<rparr>"
  using assms by (simp add: ECSQuery_def String_def)


lemma ECSQuery_client: "client (ECSQuery env c ctx d t s w) = c"
  by (simp add: ECSQuery_def Let_def split: prod.splits sum.splits)

text \<open>A call makes one request when both conversions succeed, and none otherwise.\<close>

lemma requests_ECSQuery:
  "requests (ECSQuery env c ctx d t s w) =
     (case query_param env d t s of Inl e \<Rightarrow> [] | Inr param \<Rightarrow> [get_args c ctx param])"
  by (simp add: requests_def ECSQuery_def Let_def split: prod.splits sum.splits)


lemma failure_XipError:
  "failure (ECSQuery env c ctx d t s w) = Some (XipError e) \<longleftrightarrow>
     (\<exists>a. idna_ToASCII env (TrimSpace d) = Inr a) \<and> TrimSpace s \<noteq> [] \<and>
     xip_FixSubnet env (TrimSpace s) = Inl e"
  by (auto simp: query_param_cases ECSQuery_def Let_def
           split: sum.splits prod.splits if_splits)

text \<open>Over a sequence of queries the client stays as it was, and every request goes to
  the URL of its mode.\<close>

lemma queries_client_url:
  "out \<in> set (queries env c qs w) \<Longrightarrow>
     client out = c \<and> (\<forall>g \<in> set (requests out). get_url g = Upstream_at (provides c))"
proof (induction qs arbitrary: w)
  case Nil
  then show ?case by simp
next
  case (Cons q qs)
  let ?o = "case q of Q ctx d t \<Rightarrow> Query env c ctx d t w
                    | ECSQ ctx d t s \<Rightarrow> ECSQuery env c ctx d t s w"
  have cl: "client ?o = c"
    by (cases q) (simp_all add: Query_def ECSQuery_client)
  have url: "\<forall>g \<in> set (requests ?o). get_url g = Upstream_at (provides c)"
    by (cases q) (auto simp: Query_def requests_ECSQuery get_args_def split: sum.splits)
  from Cons.prems have "out = ?o \<or> out \<in> set (queries env c qs (world ?o))"
    by (simp add: Let_def cl)
  then show ?case
    using cl url Cons.IH by blast
qed

lemma length_queries: "length (queries env c qs w) = length qs"
  by (induction qs arbitrary: c w) (simp_all add: Let_def)

subsection \<open>The test double, evaluated\<close>

lemma stub_simps:
  "idna_ToASCII stub = stub_ToASCII" "xip_FixSubnet stub = stub_FixSubnet"
  "xhttp_Get stub = stub_Get" "rsp_Bytes stub = (\<lambda>rsp w. (Inr rsp, w))"
  "rsp_Close stub = (\<lambda>rsp w. w)" "json_Decode stub = stub_Decode"
  by (simp_all add: stub_def)

lemma idn_example_neq:
  "''example.com'' \<noteq> idn_example" "''xn---'' \<noteq> idn_example" "[] \<noteq> idn_example"
  by (simp_all add: idn_example_def)

lemma TrimSpace_examples:
  "TrimSpace ''A'' = ''A''"
  "TrimSpace ''  '' = []"
  "TrimSpace ''example.com'' = ''example.com''"
  "TrimSpace '' example.com '' = ''example.com''"
  "TrimSpace ''xn---'' = ''xn---''"
  "TrimSpace ''1.2.3.4'' = ''1.2.3.4''"
  "TrimSpace '' 1.2.3.4/24 '' = ''1.2.3.4/24''"
  "TrimSpace ''not-an-ip'' = ''not-an-ip''"
  "TrimSpace [CHR 0x20, CHR 0x09, CHR 0xC2, CHR 0xA0, CHR 0xE3, CHR 0x80, CHR 0x80] = []"
  "TrimSpace idn_example = idn_example"
  by code_simp+

lemmas stub_eval =
  ECSQuery_def Query_def query_param_cases get_args_def requests_def stub_simps
  idn_example_neq stub_ToASCII_def stub_FixSubnet_def stub_Get_def stub_Decode_def stub_Decode_status_def
  TrimSpace_Nil TrimSpace_examples String_def New_def Upstream_at_def Upstream_def
  DefaultProvides_def SecuredProvides_def UnsecuredProvides_def

subsection \<open>The claims\<close>




text \<open>
  C2. When the parameters are built, the GET returns a response, its body is read and the
  decoder accepts the body with result \<open>rr\<close>, \<open>ECSQuery\<close> returns \<open>rr\<close>; with it comes the
  "failed response code" error carrying \<open>Status rr\<close> when that status is not 0, and no
  error when it is 0.
\<close>

theorem ECSQuery_status_dual_return:
  assumes "query_param env d t s = Inr param"
    and "xhttp_Get env (xhttp c) (get_args c ctx param) w = (Inr rsp, w1)"
    and "rsp_Bytes env rsp w1 = (Inr buf, w2)"
    and "json_Decode env buf \<lparr>Provider = ''quad9'', Status = 0, Answer = []\<rparr> = Inr rr"
  shows "response (ECSQuery env c ctx d t s w) = Some rr \<and>
         failure (ECSQuery env c ctx d t s w) =
           (if Status rr \<noteq> 0
            then Some (Errorf ''doh: quad9: failed response code %d'' [Status rr])
            else None)"
  by (simp add: ECSQuery_decoded [OF assms])

theorem ECSQuery_status_dual_return_witness:
  \<open>query_param stub ''example.com'' ''A'' [] =
     Inr [''name'' \<mapsto> ''example.com'', ''type'' \<mapsto> ''A''] \<and>
   xhttp_Get stub (xhttp (New ()))
     (get_args (New ()) () [''name'' \<mapsto> ''example.com'', ''type'' \<mapsto> ''A''])
     [Inr ''{"Status":2}''] = (Inr ''{"Status":2}'', []) \<and>
   rsp_Bytes stub ''{"Status":2}'' [] = (Inr ''{"Status":2}'', []) \<and>
   json_Decode stub ''{"Status":2}'' \<lparr>Provider = ''quad9'', Status = 0, Answer = []\<rparr> =
     Inr \<lparr>Provider = ''quad9'', Status = 2, Answer = []\<rparr> \<and>
   response (ECSQuery stub (New ()) () ''example.com'' ''A'' [] [Inr ''{"Status":2}'']) =
     Some \<lparr>Provider = ''quad9'', Status = 2, Answer = []\<rparr> \<and>
   failure (ECSQuery stub (New ()) () ''example.com'' ''A'' [] [Inr ''{"Status":2}'']) =
     Some (Errorf ''doh: quad9: failed response code %d'' [2]) \<and>
   response (ECSQuery stub (New ()) () ''example.com'' ''A'' [] [Inr ''{"Status":0}'']) =
     Some \<lparr>Provider = ''quad9'', Status = 0, Answer = []\<rparr> \<and>
   failure (ECSQuery stub (New ()) () ''example.com'' ''A'' [] [Inr ''{"Status":0}'']) = None\<close>
proof -
  let ?param = "[''name'' \<mapsto> ''example.com'', ''type'' \<mapsto> ''A'']"
  have 1: "query_param stub ''example.com'' ''A'' [] = Inr ?param"
    by (simp add: stub_eval)
  have 2: "xhttp_Get stub (xhttp (New ())) (get_args (New ()) () ?param) [Inr body] =
             (Inr body, [])" for body
    by (simp add: stub_simps stub_Get_def)
  have 3: "rsp_Bytes stub body [] = (Inr body, [])" for body
    by (simp add: stub_simps)
  have 4: \<open>json_Decode stub ''{"Status":2}'' \<lparr>Provider = ''quad9'', Status = 0, Answer = []\<rparr> =
             Inr \<lparr>Provider = ''quad9'', Status = 2, Answer = []\<rparr>\<close>
    by (simp add: stub_simps stub_Decode_def stub_Decode_status_def)
  have 5: \<open>json_Decode stub ''{"Status":0}'' \<lparr>Provider = ''quad9'', Status = 0, Answer = []\<rparr> =
             Inr \<lparr>Provider = ''quad9'', Status = 0, Answer = []\<rparr>\<close>
    by (simp add: stub_simps stub_Decode_def stub_Decode_status_def)
  show ?thesis
    using 1 2 3 4 ECSQuery_status_dual_return [OF 1 2 3 4]
      ECSQuery_status_dual_return [OF 1 2 3 5]
    by simp
qed

text \<open>
  C3. For every integer mode that is not a key of \<open>Upstream\<close>, \<open>SetProvides\<close> returns the
  "not supported provides" error carrying that integer, and the client it leaves behind
  is the client it was given: the mode and the transport reference are unchanged.
\<close>

theorem SetProvides_unsupported:
  "p \<notin> dom Upstream \<Longrightarrow>
     SetProvides c p = (Some (Errorf ''doh: quad9: not supported provides: %d'' [p]), c)"
  by (auto simp: SetProvides_def split: option.splits)

theorem SetProvides_unsupported_witness:
  "(3::int) \<notin> dom Upstream \<and>
   (SetProvides \<lparr>provides = 1, xhttp = ()\<rparr> 3 :: string error option \<times> unit Provider) =
     (Some (Errorf ''doh: quad9: not supported provides: %d'' [3]), \<lparr>provides = 1, xhttp = ()\<rparr>)"
  using SetProvides_unsupported [of 3 "\<lparr>provides = 1, xhttp = ()\<rparr>"]
  by (simp add: dom_Upstream)

text \<open>
  C4. For each of the three modes of \<open>Upstream\<close>, \<open>SetProvides\<close> returns no error and
  leaves the client with that mode; in every sequence of queries made on that client
  afterwards, every request goes to the URL that \<open>Upstream\<close> has for the mode.
\<close>

theorem SetProvides_supported_routes:
  fixes env :: "('h, 'c, 'r, 'a, 'x, 'w) env"
  assumes "p \<in> {DefaultProvides, SecuredProvides, UnsecuredProvides}"
  shows "(SetProvides c p :: 'x error option \<times> 'h Provider) = (None, c\<lparr>provides := p\<rparr>) \<and>
         (\<forall>out \<in> set (queries env (c\<lparr>provides := p\<rparr>) qs w).
            \<forall>g \<in> set (requests out). Upstream p = Some (get_url g))"
proof -
  from assms obtain u where u: "Upstream p = Some u"
    using dom_Upstream
    by (auto simp: DefaultProvides_def SecuredProvides_def UnsecuredProvides_def dom_def)
  then have "(SetProvides c p :: 'x error option \<times> 'h Provider) = (None, c\<lparr>provides := p\<rparr>)"
    by (simp add: SetProvides_def)
  moreover have "get_url g = u"
    if "out \<in> set (queries env (c\<lparr>provides := p\<rparr>) qs w)" "g \<in> set (requests out)" for out g
    using queries_client_url [OF that(1)] that(2) u by (simp add: Upstream_at_def)
  ultimately show ?thesis using u by simp
qed

theorem SetProvides_supported_routes_witness:
  \<open>SecuredProvides \<in> {DefaultProvides, SecuredProvides, UnsecuredProvides} \<and>
   (SetProvides (New ()) SecuredProvides :: string error option \<times> unit Provider) =
     (None, \<lparr>provides = SecuredProvides, xhttp = ()\<rparr>) \<and>
   list_all (\<lambda>out. list_all (\<lambda>g. Upstream SecuredProvides = Some (get_url g)) (requests out))
     (queries stub \<lparr>provides = SecuredProvides, xhttp = ()\<rparr>
        [Q () ''example.com'' ''A'', ECSQ () ''xn---'' ''A'' [],
         ECSQ () '' example.com '' ''A'' ''1.2.3.4'']
        [Inr ''{"Status":0}'', Inr ''{"Status":2}'']) \<and>
   map (\<lambda>out. map get_url (requests out))
     (queries stub \<lparr>provides = SecuredProvides, xhttp = ()\<rparr>
        [Q () ''example.com'' ''A'', ECSQ () ''xn---'' ''A'' [],
         ECSQ () '' example.com '' ''A'' ''1.2.3.4'']
        [Inr ''{"Status":0}'', Inr ''{"Status":2}'']) =
     [[''https://dns9.quad9.net/dns-query''], [], [''https://dns9.quad9.net/dns-query'']]\<close>
proof -
  have h: "SecuredProvides \<in> {DefaultProvides, SecuredProvides, UnsecuredProvides}"
    by simp
  have m: \<open>map (\<lambda>out. map get_url (requests out))
     (queries stub \<lparr>provides = SecuredProvides, xhttp = ()\<rparr>
        [Q () ''example.com'' ''A'', ECSQ () ''xn---'' ''A'' [],
         ECSQ () '' example.com '' ''A'' ''1.2.3.4'']
        [Inr ''{"Status":0}'', Inr ''{"Status":2}'']) =
     [[''https://dns9.quad9.net/dns-query''], [], [''https://dns9.quad9.net/dns-query'']]\<close>
    by (simp add: stub_eval)
  show ?thesis
    using SetProvides_supported_routes
            [OF h, of "New ()" stub
               "[Q () ''example.com'' ''A'', ECSQ () ''xn---'' ''A'' [],
                 ECSQ () '' example.com '' ''A'' ''1.2.3.4'']"
               \<open>[Inr ''{"Status":0}'', Inr ''{"Status":2}'']\<close>] h m
    by (simp add: list_all_iff New_def DefaultProvides_def)
qed


text \<open>
  C5. \<open>Query\<close> is \<open>ECSQuery\<close> with the empty subnet: the two calls have the same outcome.
  With the empty subnet the parameter map that is built, and so the parameter map of
  every request made, has no \<^verbatim>\<open>edns_client_subnet\<close> key.
\<close>

theorem Query_is_ECSQuery_without_subnet:
  "Query env c ctx d t w = ECSQuery env c ctx d t [] w \<and>
   (\<forall>param. query_param env d t [] = Inr param \<longrightarrow> ''edns_client_subnet'' \<notin> dom param) \<and>
   (\<forall>g \<in> set (requests (Query env c ctx d t w)). ''edns_client_subnet'' \<notin> dom (get_param g))"
  by (auto simp: Query_def requests_ECSQuery query_param_cases TrimSpace_Nil get_args_def
           split: sum.splits)

theorem Query_is_ECSQuery_without_subnet_witness:
  \<open>Query stub (New ()) () ''example.com'' ''A'' [Inr ''{"Status":0}''] =
     ECSQuery stub (New ()) () ''example.com'' ''A'' [] [Inr ''{"Status":0}''] \<and>
   query_param stub ''example.com'' ''A'' [] =
     Inr [''name'' \<mapsto> ''example.com'', ''type'' \<mapsto> ''A''] \<and>
   ''edns_client_subnet'' \<notin> dom [''name'' \<mapsto> ''example.com'', ''type'' \<mapsto> ''A''] \<and>
   map (\<lambda>g. get_param g ''edns_client_subnet'')
     (requests (Query stub (New ()) () ''example.com'' ''A'' [Inr ''{"Status":0}''])) = [None]\<close>
proof -
  have q: "query_param stub ''example.com'' ''A'' [] =
             Inr [''name'' \<mapsto> ''example.com'', ''type'' \<mapsto> ''A'']"
    by (simp add: stub_eval)
  have r: \<open>requests (Query stub (New ()) () ''example.com'' ''A'' [Inr ''{"Status":0}'']) =
             [get_args (New ()) () [''name'' \<mapsto> ''example.com'', ''type'' \<mapsto> ''A'']]\<close>
    by (simp add: Query_def requests_ECSQuery q)
  show ?thesis
    using Query_is_ECSQuery_without_subnet
            [of stub "New ()" "()" "''example.com''" "''A''" \<open>[Inr ''{"Status":0}'']\<close>] q r
    by (auto simp: domIff)
qed

text \<open>
  C6. When \<^verbatim>\<open>idna.ToASCII\<close> rejects the trimmed domain, \<open>ECSQuery\<close> returns that error and
  no response, and it has called none of the transport: the trace is empty and the
  outside state is untouched. When the conversion gives \<open>a\<close>, every request the call makes
  carries \<open>a\<close> as its \<^verbatim>\<open>name\<close> parameter, and the call does make a request unless the
  subnet is rejected.
\<close>

theorem ECSQuery_name_encoding:
  "(\<forall>e. idna_ToASCII env (TrimSpace d) = Inl e \<longrightarrow>
      ECSQuery env c ctx d t s w =
        \<lparr>response = None, failure = Some (IdnaError e), client = c, trace = [], world = w\<rparr>) \<and>
   (\<forall>a. idna_ToASCII env (TrimSpace d) = Inr a \<longrightarrow>
      (\<forall>g \<in> set (requests (ECSQuery env c ctx d t s w)). get_param g ''name'' = Some a) \<and>
      ((TrimSpace s = [] \<or> (\<exists>v. xip_FixSubnet env (TrimSpace s) = Inr v)) \<longrightarrow>
         requests (ECSQuery env c ctx d t s w) \<noteq> []))"
  by (auto simp: requests_ECSQuery query_param_cases get_args_def ECSQuery_rejected
           split: sum.splits if_splits)

theorem ECSQuery_name_encoding_witness:
  \<open>idna_ToASCII stub (TrimSpace ''xn---'') = Inl ''idna: invalid label'' \<and>
   ECSQuery stub (New ()) () ''xn---'' ''A'' ''1.2.3.4'' [Inr ''{"Status":0}''] =
     \<lparr>response = None, failure = Some (IdnaError ''idna: invalid label''),
      client = New (), trace = [], world = [Inr ''{"Status":0}'']\<rparr> \<and>
   idna_ToASCII stub (TrimSpace idn_example) = Inr ''xn--r8jz45g.jp'' \<and>
   list_all (\<lambda>g. get_param g ''name'' = Some ''xn--r8jz45g.jp'')
     (requests (ECSQuery stub (New ()) () idn_example ''A'' [] [Inr ''{"Status":0}''])) \<and>
   requests (ECSQuery stub (New ()) () idn_example ''A'' [] [Inr ''{"Status":0}'']) \<noteq> []\<close>
proof -
  have a: "idna_ToASCII stub (TrimSpace ''xn---'') = Inl ''idna: invalid label''"
    by (simp add: stub_eval)
  have b: "idna_ToASCII stub (TrimSpace idn_example) = Inr ''xn--r8jz45g.jp''"
    by (simp add: stub_eval)
  show ?thesis
    using a b
      ECSQuery_name_encoding
        [of stub "''xn---''" "New ()" "()" "''A''" "''1.2.3.4''" \<open>[Inr ''{"Status":0}'']\<close>]
      ECSQuery_name_encoding
        [of stub idn_example "New ()" "()" "''A''" "[]" \<open>[Inr ''{"Status":0}'']\<close>]
    by (simp add: list_all_iff TrimSpace_Nil)
qed





text \<open>
  C8. Whatever the inputs and whatever the outcome, \<open>ECSQuery\<close> and \<open>Query\<close> leave the
  client as they found it, mode and transport reference alike; and so does every call
  of a sequence of queries, each of which is made on the client the first one was given.
\<close>

theorem ECSQuery_client_unchanged:
  "client (ECSQuery env c ctx d t s w) = c \<and> client (Query env c ctx d t w) = c \<and>
   (\<forall>out \<in> set (queries env c qs w'). client out = c)"
  using queries_client_url [of _ env c qs w'] by (simp add: Query_def ECSQuery_client)

theorem ECSQuery_client_unchanged_witness:
  \<open>client (ECSQuery stub \<lparr>provides = 2, xhttp = ()\<rparr> () ''example.com'' ''A'' ''not-an-ip''
             [Inr ''{"Status":2}'']) = \<lparr>provides = 2, xhttp = ()\<rparr> \<and>
   client (Query stub \<lparr>provides = 2, xhttp = ()\<rparr> () ''example.com'' ''A''
             [Inr ''{"Status":2}'']) = \<lparr>provides = 2, xhttp = ()\<rparr> \<and>
   list_all (\<lambda>out. client out = \<lparr>provides = 2, xhttp = ()\<rparr>)
     (queries stub \<lparr>provides = 2, xhttp = ()\<rparr>
        [ECSQ () ''xn---'' ''A'' [], Q () ''example.com'' ''A'', Q () ''example.com'' ''A'',
         ECSQ () ''example.com'' ''A'' ''1.2.3.4'']
        [Inr ''{"Status":2}'', Inl ''context canceled'', Inr ''not json'']) \<and>
   length
     (queries stub \<lparr>provides = 2, xhttp = ()\<rparr>
        [ECSQ () ''xn---'' ''A'' [], Q () ''example.com'' ''A'', Q () ''example.com'' ''A'',
         ECSQ () ''example.com'' ''A'' ''1.2.3.4'']
        [Inr ''{"Status":2}'', Inl ''context canceled'', Inr ''not json'']) = 4\<close>
proof -
  let ?c = "\<lparr>provides = 2, xhttp = ()\<rparr> :: unit Provider"
  let ?qs = "[ECSQ () ''xn---'' ''A'' [], Q () ''example.com'' ''A'', Q () ''example.com'' ''A'',
              ECSQ () ''example.com'' ''A'' ''1.2.3.4'']"
  let ?w = \<open>[Inr ''{"Status":2}'', Inl ''context canceled'', Inr ''not json'']
             :: (string + string) list\<close>
  have n: "length (queries stub ?c ?qs ?w) = 4"
    by (simp only: length_queries) simp
  note t = ECSQuery_client_unchanged
             [of stub ?c "()" "''example.com''" "''A''" "''not-an-ip''"
                 \<open>[Inr ''{"Status":2}'']\<close> ?qs ?w]
  have a: "list_all (\<lambda>out. client out = ?c) (queries stub ?c ?qs ?w)"
    unfolding list_all_iff using t by blast
  from t a n show ?thesis by blast
qed




text \<open>
  C10. The domain is checked before the subnet. When \<^verbatim>\<open>idna.ToASCII\<close> rejects the trimmed
  domain, \<open>ECSQuery\<close> returns that error and no response whatever the subnet is. When
  \<open>ECSQuery\<close> returns an error of \<^verbatim>\<open>xip.FixSubnet\<close>, the name conversion has succeeded, and
  the error is the one \<^verbatim>\<open>xip.FixSubnet\<close> gave for the trimmed subnet.
\<close>

theorem ECSQuery_name_before_subnet:
  "(\<forall>e. idna_ToASCII env (TrimSpace d) = Inl e \<longrightarrow>
      (\<forall>s'. response (ECSQuery env c ctx d t s' w) = None \<and>
            failure (ECSQuery env c ctx d t s' w) = Some (IdnaError e))) \<and>
   (\<forall>e. failure (ECSQuery env c ctx d t s w) = Some (XipError e) \<longrightarrow>
      (\<exists>a. idna_ToASCII env (TrimSpace d) = Inr a) \<and>
      xip_FixSubnet env (TrimSpace s) = Inl e)"
  by (auto simp: failure_XipError ECSQuery_rejected query_param_cases)

theorem ECSQuery_name_before_subnet_witness:
  \<open>idna_ToASCII stub (TrimSpace ''xn---'') = Inl ''idna: invalid label'' \<and>
   response (ECSQuery stub (New ()) () ''xn---'' ''A'' ''not-an-ip'' []) = None \<and>
   failure (ECSQuery stub (New ()) () ''xn---'' ''A'' ''not-an-ip'' []) =
     Some (IdnaError ''idna: invalid label'') \<and>
   failure (ECSQuery stub (New ()) () ''xn---'' ''A'' ''1.2.3.4'' []) =
     Some (IdnaError ''idna: invalid label'') \<and>
   failure (ECSQuery stub (New ()) () ''example.com'' ''A'' ''not-an-ip'' []) =
     Some (XipError ''xip: invalid subnet'') \<and>
   idna_ToASCII stub (TrimSpace ''example.com'') = Inr ''example.com'' \<and>
   xip_FixSubnet stub (TrimSpace ''not-an-ip'') = Inl ''xip: invalid subnet''\<close>
proof -
  have a: "idna_ToASCII stub (TrimSpace ''xn---'') = Inl ''idna: invalid label''"
    by (simp add: stub_eval)
  have x: "failure (ECSQuery stub (New ()) () ''example.com'' ''A'' ''not-an-ip'' []) =
             Some (XipError ''xip: invalid subnet'')"
    by (simp add: stub_eval)
  have i: "idna_ToASCII stub (TrimSpace ''example.com'') = Inr ''example.com''"
    by (simp add: stub_eval)
  show ?thesis
    using a x i
      ECSQuery_name_before_subnet
        [of stub "''xn---''" "New ()" "()" "''A''" "[]" "''not-an-ip''"]
      ECSQuery_name_before_subnet
        [of stub "''example.com''" "New ()" "()" "''A''" "[]" "''not-an-ip''"]
    by auto
qed

end
